theory Spec2Isabelle
  imports Complex_Main
begin

section \<open>Numbers\<close>

text \<open>
  The host code computes with JavaScript numbers and the shader with GPU floats. Both are
  modelled by exact real arithmetic on the finite values: rounding, overflow and the sign
  of zero are left out. What is kept is the part of the arithmetic that turns a finite
  operand into a value that is not finite: a division by zero and a logarithm of a
  number that is not positive. A JavaScript number is therefore a finite real, one of the
  two infinities, or NaN.
\<close>

datatype number = Finite real | PosInfinity | NegInfinity | NaN

fun is_finite :: "number \<Rightarrow> bool" where
  "is_finite (Finite a) = True"
| "is_finite PosInfinity = False"
| "is_finite NegInfinity = False"
| "is_finite NaN = False"

fun is_zero :: "number \<Rightarrow> bool" where
  "is_zero (Finite a) = (a = 0)"
| "is_zero PosInfinity = False"
| "is_zero NegInfinity = False"
| "is_zero NaN = False"

fun is_negative :: "number \<Rightarrow> bool" where
  "is_negative (Finite a) = (a < 0)"
| "is_negative PosInfinity = False"
| "is_negative NegInfinity = True"
| "is_negative NaN = False"

text \<open>The operator \<^verbatim>\<open>/\<close>: a finite quotient, or by zero an infinity of the
  dividend's sign, and NaN for \<^verbatim>\<open>0 / 0\<close>.\<close>

fun js_div :: "number \<Rightarrow> number \<Rightarrow> number" where
  "js_div NaN y = NaN"
| "js_div x NaN = NaN"
| "js_div (Finite a) (Finite c) =
     (if c \<noteq> 0 then Finite (a / c)
      else if 0 < a then PosInfinity
      else if a < 0 then NegInfinity
      else NaN)"
| "js_div (Finite a) y = Finite 0"
| "js_div x (Finite c) =
     (if is_negative x = (c < 0) then PosInfinity else NegInfinity)"
| "js_div x y = NaN"

text \<open>The operator \<^verbatim>\<open>*\<close>: an infinity times zero is NaN, otherwise the signs
  multiply.\<close>

fun js_times :: "number \<Rightarrow> number \<Rightarrow> number" where
  "js_times NaN y = NaN"
| "js_times x NaN = NaN"
| "js_times (Finite a) (Finite c) = Finite (a * c)"
| "js_times x y =
     (if is_zero x \<or> is_zero y then NaN
      else if is_negative x = is_negative y then PosInfinity
      else NegInfinity)"

text \<open>The operator \<^verbatim>\<open>+\<close>: opposite infinities give NaN.\<close>

fun js_plus :: "number \<Rightarrow> number \<Rightarrow> number" where
  "js_plus NaN y = NaN"
| "js_plus x NaN = NaN"
| "js_plus (Finite a) (Finite c) = Finite (a + c)"
| "js_plus (Finite a) y = y"
| "js_plus x (Finite c) = x"
| "js_plus x y = (if x = y then x else NaN)"

text \<open>The operator \<^verbatim>\<open>-\<close>: the sum with the negated second operand.\<close>

fun js_negate :: "number \<Rightarrow> number" where
  "js_negate (Finite a) = Finite (- a)"
| "js_negate PosInfinity = NegInfinity"
| "js_negate NegInfinity = PosInfinity"
| "js_negate NaN = NaN"

definition js_minus :: "number \<Rightarrow> number \<Rightarrow> number" where
  "js_minus x y = js_plus x (js_negate y)"

text \<open>The comparison \<^verbatim>\<open><=\<close>: false whenever an operand is NaN.\<close>

fun js_le :: "number \<Rightarrow> number \<Rightarrow> bool" where
  "js_le NaN y = False"
| "js_le x NaN = False"
| "js_le (Finite a) (Finite c) = (a \<le> c)"
| "js_le NegInfinity y = True"
| "js_le x PosInfinity = True"
| "js_le x y = False"

text \<open>\<^verbatim>\<open>Math.log2\<close>: minus infinity at zero, NaN below zero.\<close>

fun js_log2 :: "number \<Rightarrow> number" where
  "js_log2 (Finite a) =
     (if 0 < a then Finite (log 2 a)
      else if a = 0 then NegInfinity
      else NaN)"
| "js_log2 PosInfinity = PosInfinity"
| "js_log2 NegInfinity = NaN"
| "js_log2 NaN = NaN"

text \<open>\<^verbatim>\<open>Math.floor\<close>: the values that are not finite pass through.\<close>

fun js_floor :: "number \<Rightarrow> number" where
  "js_floor (Finite a) = Finite (of_int \<lfloor>a\<rfloor>)"
| "js_floor x = x"

section \<open>Vectors\<close>

type_synonym vec2 = "real \<times> real"
type_synonym vec3 = "real \<times> real \<times> real"
type_synonym vec4 = "real \<times> real \<times> real \<times> real"

definition dot :: "vec2 \<Rightarrow> vec2 \<Rightarrow> real" where
  "dot u v = fst u * fst v + snd u * snd v"

fun add3 :: "vec3 \<Rightarrow> vec3 \<Rightarrow> vec3" where
  "add3 (a, b, c) (x, y, z) = (a + x, b + y, c + z)"

fun sub3 :: "vec3 \<Rightarrow> vec3 \<Rightarrow> vec3" where
  "sub3 (a, b, c) (x, y, z) = (a - x, b - y, c - z)"

fun mul3 :: "vec3 \<Rightarrow> real \<Rightarrow> vec3" where
  "mul3 (a, b, c) k = (a * k, b * k, c * k)"

fun divideScalar :: "vec3 \<Rightarrow> real \<Rightarrow> vec3" where
  "divideScalar (a, b, c) k = (a / k, b / k, c / k)"

fun dot3 :: "vec3 \<Rightarrow> vec3 \<Rightarrow> real" where
  "dot3 (a, b, c) (x, y, z) = a * x + b * y + c * z"

fun cross3 :: "vec3 \<Rightarrow> vec3 \<Rightarrow> vec3" where
  "cross3 (a, b, c) (x, y, z) = (b * z - c * y, c * x - a * z, a * y - b * x)"

text \<open>Vectors whose components may not be finite.\<close>

type_synonym nvec3 = "number \<times> number \<times> number"
type_synonym nvec4 = "number \<times> number \<times> number \<times> number"

fun fin3 :: "vec3 \<Rightarrow> nvec3" where
  "fin3 (a, b, c) = (Finite a, Finite b, Finite c)"

text \<open>The expression \<^verbatim>\<open>p.add(q.sub(p).mul(f))\<close> of a colour band, the fraction \<open>f\<close> being
  any number.\<close>

fun mix3 :: "vec3 \<Rightarrow> vec3 \<Rightarrow> number \<Rightarrow> nvec3" where
  "mix3 (a, b, c) (x, y, z) f =
     (js_plus (Finite a) (js_times (Finite (x - a)) f),
      js_plus (Finite b) (js_times (Finite (y - b)) f),
      js_plus (Finite c) (js_times (Finite (z - c)) f))"

section \<open>Constants of FractalEngine.ts\<close>

definition MAX_ZOOM :: real where "MAX_ZOOM = 2.5"
definition MIN_ZOOM :: real where "MIN_ZOOM = 0.0003"

definition COLOR_0 :: vec3 where "COLOR_0 = divideScalar (0, 7, 100) 255"
definition COLOR_1 :: vec3 where "COLOR_1 = divideScalar (32, 107, 203) 255"
definition COLOR_2 :: vec3 where "COLOR_2 = divideScalar (237, 255, 255) 255"
definition COLOR_3 :: vec3 where "COLOR_3 = divideScalar (255, 170, 0) 255"
definition COLOR_4 :: vec3 where "COLOR_4 = divideScalar (0, 2, 0) 255"

definition colorRotationAxis :: vec3 where
  "colorRotationAxis = divideScalar (1, 1, 1) (sqrt 3)"

text \<open>
  \<^verbatim>\<open>rotateColor\<close> calls the library's \<^verbatim>\<open>applyAxisAngle\<close> on a copy of the
  colour: the rotation of the vector about the unit axis by the angle, written here by
  Rodrigues' formula.
\<close>

definition rotateColor :: "vec3 \<Rightarrow> real \<Rightarrow> vec3" where
  "rotateColor color angle =
     add3 (add3 (mul3 color (cos angle))
                (mul3 (cross3 colorRotationAxis color) (sin angle)))
          (mul3 colorRotationAxis (dot3 colorRotationAxis color * (1 - cos angle)))"

section \<open>The animation driver\<close>

text \<open>The fields of the class that the frame callback and the resize handler write,
  with their initial values.\<close>

record engine =
  zoomingIn :: bool
  time :: "real option"
  uZoom :: real
  uAspect :: number
  uMaxIterations :: number
  uColor0 :: vec3
  uColor1 :: vec3
  uColor2 :: vec3
  uColor3 :: vec3
  uColor4 :: vec3

definition uStart :: vec2 where
  "uStart = (- 0.743643887037151, 0.13182590420533)"

definition initial :: engine where
  "initial = \<lparr> zoomingIn = True, time = None, uZoom = MAX_ZOOM, uAspect = Finite 1,
       uMaxIterations = Finite 100,
       uColor0 = COLOR_0, uColor1 = COLOR_1, uColor2 = COLOR_2, uColor3 = COLOR_3,
       uColor4 = COLOR_4 \<rparr>"

text \<open>
  \<^verbatim>\<open>renderLoop\<close>, with the clock reading \<^verbatim>\<open>performance.now()\<close> as its argument. The
  call of the renderer at its end draws the frame from the fields and changes none of
  them.
\<close>

definition frame_delta :: "engine \<Rightarrow> real \<Rightarrow> real" where
  "frame_delta e currentTime =
     (case time e of None \<Rightarrow> 0 | Some t \<Rightarrow> currentTime - t)"

definition renderLoop :: "real \<Rightarrow> engine \<Rightarrow> engine" where
  "renderLoop currentTime e =
     (let delta = frame_delta e currentTime;
          zin = (if uZoom e \<le> MIN_ZOOM then False
                 else if uZoom e \<ge> MAX_ZOOM then True
                 else zoomingIn e);
          zoom = uZoom e * (1 - delta * 0.0005 * (if zin then 1 else - 1));
          zoomDepth = js_log2 (js_div (Finite 2.5) (Finite zoom))
      in e\<lparr> zoomingIn := zin,
            time := Some currentTime,
            uZoom := zoom,
            uColor0 := rotateColor COLOR_0 (currentTime * 0.0002),
            uColor1 := rotateColor COLOR_1 (currentTime * 0.0003),
            uColor2 := rotateColor COLOR_2 (currentTime * 0.0004),
            uColor3 := rotateColor COLOR_3 (currentTime * 0.0005),
            uColor4 := rotateColor COLOR_4 (currentTime * 0.0006),
            uMaxIterations :=
              js_floor (js_plus (Finite 100) (js_times zoomDepth (Finite 50))) \<rparr>)"

text \<open>A run of the frame callback over successive clock readings.\<close>

fun run :: "real list \<Rightarrow> engine \<Rightarrow> engine" where
  "run [] e = e"
| "run (t # ts) e = run ts (renderLoop t e)"

text \<open>The frame deltas that a run over the clock readings \<open>ts\<close> computes, \<open>prev\<close>
  being the last reading before it (none before the first frame, whose delta is 0).\<close>

fun frame_deltas :: "real option \<Rightarrow> real list \<Rightarrow> real list" where
  "frame_deltas prev [] = []"
| "frame_deltas prev (t # ts) =
     (case prev of None \<Rightarrow> 0 | Some t0 \<Rightarrow> t - t0) # frame_deltas (Some t) ts"

text \<open>
  \<^verbatim>\<open>onResize\<close>: every entry of the notification writes the quotient of its content
  rectangle's width and height to the aspect uniform, so the last entry stays. The calls
  of the renderer (\<^verbatim>\<open>setSize\<close>, \<^verbatim>\<open>setPixelRatio\<close>) change no field of the model. The
  second source file has the same handler without the call of \<^verbatim>\<open>setPixelRatio\<close>.
\<close>

record contentRect =
  width :: real
  height :: real

fun onResize :: "contentRect list \<Rightarrow> engine \<Rightarrow> engine" where
  "onResize [] e = e"
| "onResize (entry # entries) e =
     onResize entries
       (e\<lparr> uAspect := js_div (Finite (width entry)) (Finite (height entry)) \<rparr>)"

subsection \<open>The driver as the specification words it\<close>

datatype AnimationPhase = ZoomingIn | ZoomingOut

definition K_ZOOM :: real where "K_ZOOM = 0.0005"
definition BASE_ITER :: real where "BASE_ITER = 100"
definition ITER_SLOPE :: real where "ITER_SLOPE = 50"

definition phase :: "engine \<Rightarrow> AnimationPhase" where
  "phase e = (if zoomingIn e then ZoomingIn else ZoomingOut)"

fun direction :: "AnimationPhase \<Rightarrow> real" where
  "direction ZoomingIn = 1"
| "direction ZoomingOut = - 1"

text \<open>The transitions of the phase: ZoomingIn to ZoomingOut when the zoom is at most
  MIN_ZOOM, ZoomingOut to ZoomingIn when it is at least MAX_ZOOM.\<close>

fun phase_flip :: "real \<Rightarrow> AnimationPhase \<Rightarrow> AnimationPhase" where
  "phase_flip zoom ZoomingIn = (if zoom \<le> MIN_ZOOM then ZoomingOut else ZoomingIn)"
| "phase_flip zoom ZoomingOut = (if zoom \<ge> MAX_ZOOM then ZoomingIn else ZoomingOut)"

section \<open>The fractal shader of FractalEngine.ts\<close>

text \<open>The two constants of the constructor: the reference budget \<^verbatim>\<open>maxIterations\<close> of the
  colour mapping and the bailout radius \<^verbatim>\<open>b\<close>.\<close>

definition maxIterations :: real where "maxIterations = 100"
definition b_radius :: real where "b_radius = 256.0"

definition rgbColorFromIteration :: "engine \<Rightarrow> real \<Rightarrow> vec3" where
  "rgbColorFromIteration e iteration =
     (let fractionalIteration = iteration / maxIterations
      in if fractionalIteration \<le> 0.16 then
           add3 (uColor0 e) (mul3 (sub3 (uColor1 e) (uColor0 e)) (fractionalIteration / 0.16))
         else if fractionalIteration \<le> 0.42 then
           add3 (uColor1 e)
             (mul3 (sub3 (uColor2 e) (uColor1 e)) ((fractionalIteration - 0.16) / (0.42 - 0.16)))
         else if fractionalIteration \<le> 0.6425 then
           add3 (uColor2 e)
             (mul3 (sub3 (uColor3 e) (uColor2 e)) ((fractionalIteration - 0.42) / (0.6425 - 0.42)))
         else if fractionalIteration \<le> 0.8575 then
           add3 (uColor3 e)
             (mul3 (sub3 (uColor4 e) (uColor3 e))
                ((fractionalIteration - 0.6425) / (0.8575 - 0.6425)))
         else uColor4 e)"

text \<open>One assignment to \<open>z\<close>: the complex square of \<open>z\<close> plus the sample point.\<close>

definition square_plus :: "vec2 \<Rightarrow> vec2 \<Rightarrow> vec2" where
  "square_plus z uv = (fst z * fst z - snd z * snd z + fst uv, 2.0 * fst z * snd z + snd uv)"

text \<open>
  The loop of \<^verbatim>\<open>iterateMandelbrot\<close>, \<open>k\<close> being the number of iterations left of the
  \<^verbatim>\<open>end\<close> that the integer counter runs to. Each iteration assigns to \<open>z\<close>, breaks when
  \<open>dot z z\<close> exceeds \<open>b * b\<close>, and adds one to \<open>n\<close> otherwise. The result is the last
  \<open>z\<close>, the count \<open>n\<close>, and whether the loop left by the break.
\<close>

fun Loop :: "nat \<Rightarrow> vec2 \<Rightarrow> vec2 \<Rightarrow> nat \<Rightarrow> vec2 \<times> nat \<times> bool" where
  "Loop 0 uv z n = (z, n, False)"
| "Loop (Suc k) uv z n =
     (let z' = square_plus z uv
      in if dot z' z' > b_radius * b_radius then (z', n, True)
         else Loop k uv z' (n + 1))"

text \<open>The iterations that a run of the loop began: each one that does not break adds
  one to \<open>n\<close>, and the one that breaks does not.\<close>

fun steps :: "vec2 \<times> nat \<times> bool \<Rightarrow> nat" where
  "steps (z, n, early) = (if early then n + 1 else n)"

text \<open>
  \<^verbatim>\<open>iterateMandelbrot\<close> after its loop. The flag \<^verbatim>\<open>inSet\<close> is the shader constant
  \<^verbatim>\<open>bool(false)\<close>. The body of the \<^verbatim>\<open>If\<close> on \<open>n \<ge> uMaxIterations - 1\<close> holds one
  statement, \<^verbatim>\<open>inSet.value = true\<close>: a write to a property of the JavaScript object, not
  an assignment of the shader (those are written \<^verbatim>\<open>assign\<close> and \<^verbatim>\<open>addAssign\<close>, as for
  \<open>z\<close> and \<open>n\<close>). The \<^verbatim>\<open>If\<close> therefore puts no statement into the shader, the \<^verbatim>\<open>select\<close>
  is on the constant, and every pixel gets the third operand. Its logarithms are not
  finite when their argument is not positive, so the value is a number.
\<close>

definition iterateMandelbrot :: "int \<Rightarrow> vec2 \<Rightarrow> vec2 \<Rightarrow> number" where
  "iterateMandelbrot uMaxIter z uv =
     (case Loop (nat uMaxIter) uv z 0 of
        (z', n, early) \<Rightarrow>
          let inSet = False
          in if inSet then Finite 0
             else js_minus (Finite (real n))
                    (js_plus (js_log2 (js_log2 (Finite (dot z' z')))) (Finite 4.0)))"

text \<open>
  The colour mapping on a number. On a finite value it is \<^verbatim>\<open>rgbColorFromIteration\<close> as
  above; on NaN every \<^verbatim>\<open>lessThanEqual\<close> is false.
\<close>

definition rgbColorFromIteration_number :: "engine \<Rightarrow> number \<Rightarrow> nvec3" where
  "rgbColorFromIteration_number e iteration =
     (let fractionalIteration = js_div iteration (Finite maxIterations)
      in if js_le fractionalIteration (Finite 0.16) then
           mix3 (uColor0 e) (uColor1 e) (js_div fractionalIteration (Finite 0.16))
         else if js_le fractionalIteration (Finite 0.42) then
           mix3 (uColor1 e) (uColor2 e)
             (js_div (js_minus fractionalIteration (Finite 0.16)) (Finite (0.42 - 0.16)))
         else if js_le fractionalIteration (Finite 0.6425) then
           mix3 (uColor2 e) (uColor3 e)
             (js_div (js_minus fractionalIteration (Finite 0.42)) (Finite (0.6425 - 0.42)))
         else if js_le fractionalIteration (Finite 0.8575) then
           mix3 (uColor3 e) (uColor4 e)
             (js_div (js_minus fractionalIteration (Finite 0.6425)) (Finite (0.8575 - 0.6425)))
         else fin3 (uColor4 e))"

text \<open>The sample point of a pixel: the position in the quad, its x scaled by the aspect
  uniform, times the zoom, plus the centre.\<close>

definition scaled :: "engine \<Rightarrow> vec2 \<Rightarrow> number \<times> number" where
  "scaled e positionLocal =
     (let pos = (js_times (Finite (fst positionLocal)) (uAspect e), Finite (snd positionLocal))
      in (js_plus (js_times (fst pos) (Finite (uZoom e))) (Finite (fst uStart)),
          js_plus (js_times (snd pos) (Finite (uZoom e))) (Finite (snd uStart))))"

fun vec4 :: "vec3 \<Rightarrow> real \<Rightarrow> vec4" where
  "vec4 (r, g, bl) a = (r, g, bl, a)"

fun vec4_number :: "nvec3 \<Rightarrow> number \<Rightarrow> nvec4" where
  "vec4_number (r, g, bl) a = (r, g, bl, a)"

text \<open>
  \<^verbatim>\<open>mandelBrot\<close> from its sample point on: the fragment colour of a pixel whose sample
  point \<open>scaled e positionLocal\<close> is the finite point \<open>c\<close> and whose budget uniform is the
  integer \<open>uMaxIter\<close>. The shader on a sample point or a budget that is not finite is
  outside the model.
\<close>

definition mandelBrot :: "engine \<Rightarrow> int \<Rightarrow> vec2 \<Rightarrow> nvec4" where
  "mandelBrot e uMaxIter c =
     (let z = (0, 0);
          iterations = iterateMandelbrot uMaxIter z c
      in vec4_number (rgbColorFromIteration_number e iterations) (Finite 1.0))"

section \<open>The fractal shader of the second source file\<close>

text \<open>
  The second file has the same colour mapping and sample point, and its \<^verbatim>\<open>mandelBrot\<close> is
  modelled from the finite sample point on as well. Its loop is written in
  \<^verbatim>\<open>mandelBrot\<close> itself: each iteration first stores the counter \<open>i\<close> in
  \<^verbatim>\<open>iteration\<close>, breaks when \<open>dot z z\<close> exceeds 4, and assigns to \<open>z\<close> otherwise. A point
  in the set is black, any other is coloured from \<^verbatim>\<open>iteration\<close>. Its frame callback
  is that of FractalEngine.ts with 0.000005 for \<open>MIN_ZOOM\<close>.
\<close>

fun Loop_2 :: "nat \<Rightarrow> nat \<Rightarrow> vec2 \<Rightarrow> vec2 \<Rightarrow> real \<Rightarrow> vec2 \<times> real \<times> bool" where
  "Loop_2 0 i uv z iteration = (z, iteration, False)"
| "Loop_2 (Suc k) i uv z iteration =
     (if dot z z > 4.0 then (z, real i, True)
      else Loop_2 k (Suc i) uv (square_plus z uv) (real i))"

definition mandelBrot_2 :: "engine \<Rightarrow> int \<Rightarrow> vec2 \<Rightarrow> vec4" where
  "mandelBrot_2 e uMaxIter c =
     (case Loop_2 (nat uMaxIter) 0 c (0, 0) 0 of
        (z, iteration, early) \<Rightarrow>
          let color = (if iteration \<ge> real_of_int uMaxIter - 1 then (0, 0, 0)
                       else rgbColorFromIteration e iteration)
          in vec4 color 1.0)"

section \<open>The escape-time iteration as the specification words it\<close>

text \<open>The iterates \<open>z\<^sub>0 = 0\<close>, \<open>z\<^sub>n\<^sub>+\<^sub>1 = z\<^sub>n\<^sup>2 + c\<close>.\<close>

fun orbit :: "vec2 \<Rightarrow> nat \<Rightarrow> vec2" where
  "orbit c 0 = (0, 0)"
| "orbit c (Suc j) = square_plus (orbit c j) c"

section \<open>Example inputs\<close>

text \<open>The engine after a resize to 800 by 400, and the pixel of the quad whose sample
  point is then 0.\<close>

definition wide :: engine where
  "wide = onResize [\<lparr>width = 800, height = 400\<rparr>] initial"

definition pixel_at_0 :: vec2 where
  "pixel_at_0 = (0.1487287774074302, - 0.052730361682132)"

section \<open>Properties of the animation driver\<close>

lemma MIN_below_MAX: "MIN_ZOOM < MAX_ZOOM"
  by (simp add: MIN_ZOOM_def MAX_ZOOM_def)

lemma renderLoop_zoomingIn:
  "zoomingIn (renderLoop t e) =
     (if uZoom e \<le> MIN_ZOOM then False
      else if uZoom e \<ge> MAX_ZOOM then True else zoomingIn e)"
  by (simp add: renderLoop_def Let_def)

lemma renderLoop_uZoom:
  "uZoom (renderLoop t e) =
     uZoom e * (1 - frame_delta e t * 0.0005 *
                  (if zoomingIn (renderLoop t e) then 1 else - 1))"
  by (simp add: renderLoop_def Let_def)

lemma renderLoop_time: "time (renderLoop t e) = Some t"
  by (simp add: renderLoop_def Let_def)

lemma renderLoop_uMaxIterations:
  "uMaxIterations (renderLoop t e) =
     js_floor (js_plus (Finite 100)
       (js_times (js_log2 (js_div (Finite 2.5) (Finite (uZoom (renderLoop t e)))))
                 (Finite 50)))"
  by (simp add: renderLoop_def Let_def)

text \<open>
  C3. Each frame the new zoom is \<open>zoom * (1 - delta * K_ZOOM * direction)\<close>, the
  direction being \<open>+1\<close> in phase ZoomingIn and \<open>-1\<close> in phase ZoomingOut, and the phase
  is flipped first, against the zoom of the previous frame: the direction used is that of
  the flipped phase.
\<close>

theorem C3_zoom_update:
  "phase (renderLoop t e) = phase_flip (uZoom e) (phase e) \<and>
   uZoom (renderLoop t e) =
     uZoom e * (1 - frame_delta e t * K_ZOOM * direction (phase_flip (uZoom e) (phase e)))"
proof -
  have flip: "phase (renderLoop t e) = phase_flip (uZoom e) (phase e)"
    using MIN_below_MAX by (cases "zoomingIn e") (simp_all add: phase_def renderLoop_zoomingIn)
  have dir: "direction (phase (renderLoop t e)) = (if zoomingIn (renderLoop t e) then 1 else - 1)"
    by (simp add: phase_def)
  have "uZoom (renderLoop t e) =
          uZoom e * (1 - frame_delta e t * K_ZOOM * direction (phase (renderLoop t e)))"
    unfolding dir K_ZOOM_def by (rule renderLoop_uZoom)
  with flip show ?thesis by simp
qed

lemma run_invariant:
  assumes step: "\<And>e t. P e \<Longrightarrow> 0 \<le> frame_delta e t \<Longrightarrow> frame_delta e t < D \<Longrightarrow> P (renderLoop t e)"
  shows "list_all (\<lambda>d. 0 \<le> d \<and> d < D) (frame_deltas (time e) ts) \<Longrightarrow> P e \<Longrightarrow> P (run ts e)"
proof (induction ts arbitrary: e)
  case Nil
  then show ?case by simp
next
  case (Cons t ts)
  from Cons.prems(1) have d: "0 \<le> frame_delta e t" "frame_delta e t < D"
    and rest: "list_all (\<lambda>d. 0 \<le> d \<and> d < D) (frame_deltas (time (renderLoop t e)) ts)"
    by (simp_all add: frame_delta_def renderLoop_time)
  have "P (renderLoop t e)" using Cons.prems(2) d by (rule step)
  with rest have "P (run ts (renderLoop t e))" by (rule Cons.IH)
  then show ?case by simp
qed

lemma renderLoop_positive:
  assumes "0 < uZoom e" "0 \<le> frame_delta e t" "frame_delta e t < 2000"
  shows "0 < uZoom (renderLoop t e)"
proof -
  let ?d = "frame_delta e t * 0.0005"
  have "0 \<le> ?d" "?d < 1" using assms(2,3) by simp_all
  then have "0 < 1 - ?d * (if zoomingIn (renderLoop t e) then 1 else - 1)"
    by (simp split: if_splits)
  with assms(1) show ?thesis
    by (subst renderLoop_uZoom) (simp only: mult.assoc zero_less_mult_iff, simp)
qed

lemma renderLoop_band:
  assumes D: "D \<le> 2000"
    and d: "0 \<le> frame_delta e t" "frame_delta e t < D"
    and lo: "MIN_ZOOM * (1 - D * K_ZOOM) \<le> uZoom e"
    and hi: "uZoom e \<le> MAX_ZOOM * (1 + D * K_ZOOM)"
  shows "MIN_ZOOM * (1 - D * K_ZOOM) \<le> uZoom (renderLoop t e) \<and>
         uZoom (renderLoop t e) \<le> MAX_ZOOM * (1 + D * K_ZOOM)"
proof -
  define q where "q = D * K_ZOOM"
  define dk where "dk = frame_delta e t * 0.0005"
  have q: "0 \<le> dk" "dk \<le> q" "q \<le> 1"
    using D d by (simp_all add: q_def dk_def K_ZOOM_def)
  have MIN: "0 < MIN_ZOOM" by (simp add: MIN_ZOOM_def)
  have MAX: "0 < MAX_ZOOM" by (simp add: MAX_ZOOM_def)
  have lo0: "0 \<le> MIN_ZOOM * (1 - q)" using q MIN by simp
  have z0: "0 \<le> uZoom e" using lo lo0 by (simp add: q_def)
  show ?thesis
  proof (cases "zoomingIn (renderLoop t e)")
    case True
    then have above: "MIN_ZOOM < uZoom e"
      by (simp add: renderLoop_zoomingIn split: if_splits)
    have new: "uZoom (renderLoop t e) = uZoom e * (1 - dk)"
      using True by (subst renderLoop_uZoom) (simp add: dk_def)
    have "MIN_ZOOM * (1 - q) \<le> uZoom e * (1 - dk)"
      using above q MIN by (intro mult_mono) simp_all
    moreover have "uZoom e * (1 - dk) \<le> uZoom e * 1"
      using z0 q by (intro mult_left_mono) simp_all
    ultimately show ?thesis using hi new by (simp add: q_def)
  next
    case False
    then have below: "uZoom e < MAX_ZOOM"
      using MIN_below_MAX by (simp add: renderLoop_zoomingIn split: if_splits)
    have new: "uZoom (renderLoop t e) = uZoom e * (1 + dk)"
      using False by (subst renderLoop_uZoom) (simp add: dk_def)
    have "uZoom e * (1 + dk) \<le> MAX_ZOOM * (1 + q)"
      using below q z0 by (intro mult_mono) simp_all
    moreover have "uZoom e * 1 \<le> uZoom e * (1 + dk)"
      using z0 q by (intro mult_left_mono) simp_all
    ultimately show ?thesis using lo new by (simp add: q_def)
  qed
qed

lemma renderLoop_budget:
  assumes "0 < uZoom (renderLoop t e)"
  shows "uMaxIterations (renderLoop t e) =
           Finite (of_int \<lfloor>BASE_ITER + log 2 (MAX_ZOOM / uZoom (renderLoop t e)) * ITER_SLOPE\<rfloor>)"
  using assms
  by (subst renderLoop_uMaxIterations) (simp add: BASE_ITER_def ITER_SLOPE_def MAX_ZOOM_def)

lemma renderLoop_positive_finite:
  assumes "0 < uZoom e \<and> is_finite (uMaxIterations e)"
    "0 \<le> frame_delta e t" "frame_delta e t < 2000"
  shows "0 < uZoom (renderLoop t e) \<and> is_finite (uMaxIterations (renderLoop t e))"
proof -
  have pos: "0 < uZoom (renderLoop t e)"
    using assms by (intro renderLoop_positive) simp_all
  then show ?thesis by (simp add: renderLoop_budget)
qed

lemma initial_uZoom: "uZoom initial = MAX_ZOOM"
  by (simp add: initial_def)

lemma initial_time: "time initial = None"
  by (simp add: initial_def)

text \<open>
  C2, as amended. The code has no clamp: the zoom stays strictly above 0 because each
  frame multiplies it by \<open>1 - delta * 0.0005 * direction\<close>, which is positive as long as
  the frame delta is below 2000 ms. For every run from the initial state whose frame
  deltas lie in \<open>[0, 2000)\<close> the zoom is strictly positive, so the division
  \<open>MAX_ZOOM / zoom\<close> of the iteration-depth computation is a finite positive number and
  the iteration budget is finite.
\<close>

theorem C2_zoom_positive:
  assumes "list_all (\<lambda>d. 0 \<le> d \<and> d < 2000) (frame_deltas None ts)"
  shows "0 < uZoom (run ts initial) \<and>
         js_div (Finite MAX_ZOOM) (Finite (uZoom (run ts initial))) =
           Finite (MAX_ZOOM / uZoom (run ts initial)) \<and>
         0 < MAX_ZOOM / uZoom (run ts initial) \<and>
         is_finite (uMaxIterations (run ts initial))"
proof -
  have start: "0 < uZoom initial \<and> is_finite (uMaxIterations initial)"
    by (simp add: initial_def MAX_ZOOM_def)
  have deltas: "list_all (\<lambda>d. 0 \<le> d \<and> d < 2000) (frame_deltas (time initial) ts)"
    using assms by (simp add: initial_time)
  have "0 < uZoom (run ts initial) \<and> is_finite (uMaxIterations (run ts initial))"
    using deltas start
    by (rule run_invariant [where P = "\<lambda>e. 0 < uZoom e \<and> is_finite (uMaxIterations e)", rotated])
       (rule renderLoop_positive_finite)
  then show ?thesis by (simp add: MAX_ZOOM_def)
qed

text \<open>Three frames at 0, 16 and 33 ms satisfy the hypothesis.\<close>

theorem C2_zoom_positive_witness:
  "list_all (\<lambda>d. 0 \<le> d \<and> d < 2000) (frame_deltas None [0, 16, 33]) \<and>
   0 < uZoom (run [0, 16, 33] initial) \<and>
   is_finite (uMaxIterations (run [0, 16, 33] initial))"
proof -
  have h: "list_all (\<lambda>d. 0 \<le> d \<and> d < 2000) (frame_deltas None [0, 16, 33])"
    by simp
  from C2_zoom_positive [OF h] h show ?thesis by simp
qed

lemma run_0_2000: "uZoom (run [0, 2000] initial) = 0"
  by (simp add: renderLoop_uZoom renderLoop_zoomingIn renderLoop_time frame_delta_def
      initial_def MIN_ZOOM_def MAX_ZOOM_def)

text \<open>
  C2 as stated fails: a second frame 2000 ms after the first (frame deltas 0 and 2000,
  both at least 0) multiplies the zoom by \<open>1 - 2000 * 0.0005 = 0\<close>. The zoom is then 0,
  the division is by zero, and the iteration budget is infinite.
\<close>

theorem C2_zoom_zero_counterexample:
  "frame_deltas None [0, 2000] = [0, 2000] \<and>
   uZoom (run [0, 2000] initial) = 0 \<and>
   js_div (Finite MAX_ZOOM) (Finite (uZoom (run [0, 2000] initial))) = PosInfinity \<and>
   uMaxIterations (run [0, 2000] initial) = PosInfinity"
proof -
  have z: "uZoom (renderLoop 2000 (renderLoop 0 initial)) = 0"
    using run_0_2000 by simp
  have "uMaxIterations (renderLoop 2000 (renderLoop 0 initial)) = PosInfinity"
    by (subst renderLoop_uMaxIterations) (simp add: z)
  then show ?thesis using z by (simp add: MAX_ZOOM_def)
qed

text \<open>
  C5, as amended. The zoom is not kept inside \<open>[MIN_ZOOM, MAX_ZOOM]\<close>; it can pass either
  threshold by one frame's factor before the phase flips. For every run from the initial
  state whose frame deltas lie in \<open>[0, D)\<close>, with \<open>D\<close> at most 2000 ms, the zoom stays in
  \<open>[MIN_ZOOM * (1 - D * K_ZOOM), MAX_ZOOM * (1 + D * K_ZOOM)]\<close>.
\<close>

theorem C5_zoom_band:
  assumes "0 \<le> D" "D \<le> 2000"
    and "list_all (\<lambda>d. 0 \<le> d \<and> d < D) (frame_deltas None ts)"
  shows "MIN_ZOOM * (1 - D * K_ZOOM) \<le> uZoom (run ts initial) \<and>
         uZoom (run ts initial) \<le> MAX_ZOOM * (1 + D * K_ZOOM)"
proof -
  let ?P = "\<lambda>e. MIN_ZOOM * (1 - D * K_ZOOM) \<le> uZoom e \<and>
                 uZoom e \<le> MAX_ZOOM * (1 + D * K_ZOOM)"
  have q: "0 \<le> D * K_ZOOM" "D * K_ZOOM \<le> 1"
    using assms(1,2) by (simp_all add: K_ZOOM_def)
  have "MIN_ZOOM * (1 - D * K_ZOOM) \<le> MIN_ZOOM * 1"
    using q by (intro mult_left_mono) (simp_all add: MIN_ZOOM_def)
  moreover have "MAX_ZOOM * 1 \<le> MAX_ZOOM * (1 + D * K_ZOOM)"
    using q by (intro mult_left_mono) (simp_all add: MAX_ZOOM_def)
  ultimately have start: "?P initial"
    using MIN_below_MAX by (simp add: initial_uZoom)
  have deltas: "list_all (\<lambda>d. 0 \<le> d \<and> d < D) (frame_deltas (time initial) ts)"
    using assms(3) by (simp add: initial_time)
  show ?thesis
    using deltas start
  proof (rule run_invariant [where P = ?P, rotated])
    fix e t
    assume "?P e" "0 \<le> frame_delta e t" "frame_delta e t < D"
    with assms(2) show "?P (renderLoop t e)"
      by (intro renderLoop_band) simp_all
  qed
qed

text \<open>Three frames at 0, 16 and 33 ms, with \<open>D = 100\<close>.\<close>

theorem C5_zoom_band_witness:
  "(0::real) \<le> 100 \<and> (100::real) \<le> 2000 \<and>
   list_all (\<lambda>d. 0 \<le> d \<and> d < 100) (frame_deltas None [0, 16, 33]) \<and>
   MIN_ZOOM * (1 - 100 * K_ZOOM) \<le> uZoom (run [0, 16, 33] initial) \<and>
   uZoom (run [0, 16, 33] initial) \<le> MAX_ZOOM * (1 + 100 * K_ZOOM)"
proof -
  have h: "list_all (\<lambda>d. 0 \<le> d \<and> d < 100) (frame_deltas None [0, 16, 33])"
    by simp
  from C5_zoom_band [of 100, OF _ _ h] h show ?thesis by simp
qed

text \<open>
  C5 as stated fails: a second frame 1999.9 ms after the first takes the zoom from 2.5 to
  0.000125, below \<open>MIN_ZOOM = 0.0003\<close>.
\<close>

theorem C5_overshoot_counterexample:
  "frame_deltas None [0, 1999.9] = [0, 1999.9] \<and>
   uZoom (run [0, 1999.9] initial) = 0.000125 \<and>
   uZoom (run [0, 1999.9] initial) < MIN_ZOOM"
  by (simp add: renderLoop_uZoom renderLoop_zoomingIn renderLoop_time frame_delta_def
      initial_def MIN_ZOOM_def MAX_ZOOM_def)

text \<open>
  C6. Each frame sets the iteration budget to \<open>floor (BASE_ITER + depth * ITER_SLOPE)\<close>
  with \<open>depth = log2 (MAX_ZOOM / zoom)\<close>, the zoom being the one the frame has just
  computed: in the arithmetic of numbers for every frame, and as the floor of the real
  expression whenever that zoom is positive. Of two frames with positive zooms (so also
  of two with zooms in \<open>[MIN_ZOOM, MAX_ZOOM]\<close>), the one with the smaller zoom has a
  budget at least as large.
\<close>

theorem C6_budget_monotone:
  "uMaxIterations (renderLoop t e) =
     js_floor (js_plus (Finite BASE_ITER)
       (js_times (js_log2 (js_div (Finite MAX_ZOOM) (Finite (uZoom (renderLoop t e)))))
                 (Finite ITER_SLOPE))) \<and>
   (0 < uZoom (renderLoop t e) \<longrightarrow>
      uMaxIterations (renderLoop t e) =
        Finite (of_int \<lfloor>BASE_ITER + log 2 (MAX_ZOOM / uZoom (renderLoop t e)) * ITER_SLOPE\<rfloor>)) \<and>
   (0 < uZoom (renderLoop t1 e1) \<and> uZoom (renderLoop t1 e1) \<le> uZoom (renderLoop t2 e2) \<longrightarrow>
      uMaxIterations (renderLoop t1 e1) =
        Finite (of_int \<lfloor>BASE_ITER + log 2 (MAX_ZOOM / uZoom (renderLoop t1 e1)) * ITER_SLOPE\<rfloor>) \<and>
      uMaxIterations (renderLoop t2 e2) =
        Finite (of_int \<lfloor>BASE_ITER + log 2 (MAX_ZOOM / uZoom (renderLoop t2 e2)) * ITER_SLOPE\<rfloor>) \<and>
      \<lfloor>BASE_ITER + log 2 (MAX_ZOOM / uZoom (renderLoop t2 e2)) * ITER_SLOPE\<rfloor>
        \<le> \<lfloor>BASE_ITER + log 2 (MAX_ZOOM / uZoom (renderLoop t1 e1)) * ITER_SLOPE\<rfloor>)"
proof (intro conjI impI)
  show "uMaxIterations (renderLoop t e) =
     js_floor (js_plus (Finite BASE_ITER)
       (js_times (js_log2 (js_div (Finite MAX_ZOOM) (Finite (uZoom (renderLoop t e)))))
                 (Finite ITER_SLOPE)))"
    unfolding BASE_ITER_def ITER_SLOPE_def MAX_ZOOM_def by (rule renderLoop_uMaxIterations)
next
  assume "0 < uZoom (renderLoop t e)"
  then show "uMaxIterations (renderLoop t e) =
        Finite (of_int \<lfloor>BASE_ITER + log 2 (MAX_ZOOM / uZoom (renderLoop t e)) * ITER_SLOPE\<rfloor>)"
    by (rule renderLoop_budget)
next
  let ?z1 = "uZoom (renderLoop t1 e1)" and ?z2 = "uZoom (renderLoop t2 e2)"
  assume h: "0 < ?z1 \<and> ?z1 \<le> ?z2"
  then have pos1: "0 < ?z1" and pos2: "0 < ?z2" by simp_all
  show "uMaxIterations (renderLoop t1 e1) =
        Finite (of_int \<lfloor>BASE_ITER + log 2 (MAX_ZOOM / ?z1) * ITER_SLOPE\<rfloor>)"
    using pos1 by (rule renderLoop_budget)
  show "uMaxIterations (renderLoop t2 e2) =
        Finite (of_int \<lfloor>BASE_ITER + log 2 (MAX_ZOOM / ?z2) * ITER_SLOPE\<rfloor>)"
    using pos2 by (rule renderLoop_budget)
  have "MAX_ZOOM / ?z2 \<le> MAX_ZOOM / ?z1"
    using pos1 h by (intro divide_left_mono) (simp_all add: MAX_ZOOM_def)
  moreover have "0 < MAX_ZOOM / ?z2" "0 < MAX_ZOOM / ?z1"
    using pos1 pos2 by (simp_all add: MAX_ZOOM_def)
  ultimately have "log 2 (MAX_ZOOM / ?z2) \<le> log 2 (MAX_ZOOM / ?z1)"
    by simp
  then have "BASE_ITER + log 2 (MAX_ZOOM / ?z2) * ITER_SLOPE
               \<le> BASE_ITER + log 2 (MAX_ZOOM / ?z1) * ITER_SLOPE"
    by (simp add: ITER_SLOPE_def)
  then show "\<lfloor>BASE_ITER + log 2 (MAX_ZOOM / ?z2) * ITER_SLOPE\<rfloor>
               \<le> \<lfloor>BASE_ITER + log 2 (MAX_ZOOM / ?z1) * ITER_SLOPE\<rfloor>"
    by (rule floor_mono)
qed

lemma zoom_after_1000: "uZoom (renderLoop 1000 (renderLoop 0 initial)) = 1.25"
  by (simp add: renderLoop_uZoom renderLoop_zoomingIn renderLoop_time frame_delta_def
      initial_def MIN_ZOOM_def MAX_ZOOM_def)

lemma zoom_after_0: "uZoom (renderLoop 0 initial) = 2.5"
  by (simp add: renderLoop_uZoom renderLoop_zoomingIn renderLoop_time frame_delta_def
      initial_def MIN_ZOOM_def MAX_ZOOM_def)

text \<open>The frame one second after the first has zoom 1.25 and budget 150; the first has
  zoom 2.5 and budget 100.\<close>

theorem C6_budget_monotone_witness:
  "0 < uZoom (renderLoop 1000 (renderLoop 0 initial)) \<and>
   uZoom (renderLoop 1000 (renderLoop 0 initial)) \<le> uZoom (renderLoop 0 initial) \<and>
   uMaxIterations (renderLoop 1000 (renderLoop 0 initial)) = Finite 150 \<and>
   uMaxIterations (renderLoop 0 initial) = Finite 100"
proof -
  have h: "0 < uZoom (renderLoop 1000 (renderLoop 0 initial)) \<and>
    uZoom (renderLoop 1000 (renderLoop 0 initial)) \<le> uZoom (renderLoop 0 initial)"
    by (simp add: zoom_after_1000 zoom_after_0)
  from C6_budget_monotone [of 0 initial 1000 "renderLoop 0 initial" 0 initial] h
  show ?thesis
    by (simp add: zoom_after_1000 zoom_after_0 MAX_ZOOM_def BASE_ITER_def ITER_SLOPE_def)
qed

section \<open>Properties of the escape-time iteration\<close>

text \<open>The loop started at the iterate \<open>z\<^sub>i\<close>: its count, its break, the iterate it ends
  at, and the iterates before it that stayed inside the bailout radius.\<close>

lemma Loop_orbit:
  "Loop k c (orbit c i) n = (z, n', early) \<Longrightarrow>
     n \<le> n' \<and> n' \<le> n + k \<and>
     (\<not> early \<longrightarrow> n' = n + k) \<and>
     (early \<longrightarrow> n' < n + k \<and> dot z z > b_radius * b_radius) \<and>
     z = orbit c (i + steps (z, n', early) - n) \<and>
     (\<forall>j. i < j \<and> j \<le> i + (n' - n) \<longrightarrow>
          \<not> dot (orbit c j) (orbit c j) > b_radius * b_radius)"
proof (induction k arbitrary: i n)
  case 0
  then show ?case by auto
next
  case (Suc k)
  show ?case
  proof (cases "dot (orbit c (Suc i)) (orbit c (Suc i)) > b_radius * b_radius")
    case True
    with Suc.prems have "z = orbit c (Suc i)" "n' = n" "early"
      by (simp_all add: Let_def)
    with True show ?thesis by auto
  next
    case False
    with Suc.prems have rec: "Loop k c (orbit c (Suc i)) (n + 1) = (z, n', early)"
      by (simp add: Let_def)
    note IH = Suc.IH [OF rec]
    have "\<forall>j. i < j \<and> j \<le> i + (n' - n) \<longrightarrow>
            \<not> dot (orbit c j) (orbit c j) > b_radius * b_radius"
    proof (intro allI impI)
      fix j assume j: "i < j \<and> j \<le> i + (n' - n)"
      show "\<not> dot (orbit c j) (orbit c j) > b_radius * b_radius"
      proof (cases "j = Suc i")
        case True
        with False show ?thesis by simp
      next
        case False
        with j IH have "Suc i < j \<and> j \<le> Suc i + (n' - (n + 1))" by auto
        with IH show ?thesis by blast
      qed
    qed
    moreover have "z = orbit c (i + steps (z, n', early) - n)"
    proof -
      from IH have "z = orbit c (Suc i + steps (z, n', early) - (n + 1))" by blast
      moreover from IH have "n + 1 \<le> steps (z, n', early)" by auto
      ultimately show ?thesis by simp
    qed
    ultimately show ?thesis using IH by auto
  qed
qed

lemma orbit_0_inside: "\<not> dot (orbit c 0) (orbit c 0) > b_radius * b_radius"
  by (simp add: dot_def b_radius_def)

text \<open>
  C7. For every sample point \<open>c\<close> and every budget \<open>maxIterations\<close> of at least 0, the
  loop begins at most \<open>maxIterations\<close> iterations and ends at the iterate of that index;
  and whenever an iterate \<open>z\<^sub>j\<close> with \<open>j\<close> strictly below the budget has
  \<open>|z\<^sub>j|\<^sup>2 > 256\<^sup>2\<close>, the loop leaves by its break after at most \<open>j\<close> iterations,
  strictly fewer than the budget.
\<close>

theorem C7_loop_bound:
  assumes "0 \<le> m"
  shows "int (steps (Loop (nat m) c (0, 0) 0)) \<le> m \<and>
         fst (Loop (nat m) c (0, 0) 0) = orbit c (steps (Loop (nat m) c (0, 0) 0)) \<and>
         (\<forall>j. int j < m \<and> dot (orbit c j) (orbit c j) > b_radius * b_radius \<longrightarrow>
              snd (snd (Loop (nat m) c (0, 0) 0)) \<and>
              steps (Loop (nat m) c (0, 0) 0) \<le> j \<and>
              int (steps (Loop (nat m) c (0, 0) 0)) < m)"
proof -
  obtain z n early where r: "Loop (nat m) c (0, 0) 0 = (z, n, early)"
    by (cases "Loop (nat m) c (0, 0) 0") auto
  then have "Loop (nat m) c (orbit c 0) 0 = (z, n, early)" by simp
  note L = Loop_orbit [OF this]
  have bound: "int (steps (z, n, early)) \<le> m"
    using L assms by (cases early) auto
  have at: "z = orbit c (steps (z, n, early))"
    using L by simp
  have early: "early \<and> steps (z, n, early) \<le> j \<and> int (steps (z, n, early)) < m"
    if j: "int j < m" "dot (orbit c j) (orbit c j) > b_radius * b_radius" for j
  proof -
    have "0 < j" using j(2) orbit_0_inside [of c] by (cases j) auto
    have inside: "\<not> dot (orbit c j) (orbit c j) > b_radius * b_radius" if "j \<le> n"
      using L \<open>0 < j\<close> that by simp
    with j(2) have "n < j" by (cases "j \<le> n") auto
    moreover have "early"
    proof (rule ccontr)
      assume "\<not> early"
      with L have "n = nat m" by simp
      with \<open>n < j\<close> j(1) show False by simp
    qed
    ultimately show ?thesis using j(1) by simp
  qed
  show ?thesis
    unfolding r using bound at early by (simp del: steps.simps) blast
qed

lemma Loop_at_2:
  "Loop (Suc (Suc (Suc (Suc k)))) (2, 0) (0, 0) 0 = ((1446, 0), 3, True)"
  by (simp add: square_plus_def dot_def b_radius_def Let_def)

lemma Loop_100_at_2: "Loop 100 (2, 0) (0, 0) 0 = ((1446, 0), 3, True)"
proof -
  have "(100::nat) = Suc (Suc (Suc (Suc 96)))" by simp
  then show ?thesis by (simp only: Loop_at_2)
qed

lemma Loop_nat_100_at_2: "Loop (nat 100) (2, 0) (0, 0) 0 = ((1446, 0), 3, True)"
  using Loop_100_at_2 by simp

lemma orbit_4_at_2: "orbit (2, 0) 4 = (1446, 0)"
proof -
  have "(4::nat) = Suc (Suc (Suc (Suc 0)))" by simp
  then have "orbit (2, 0) 4 = orbit (2, 0) (Suc (Suc (Suc (Suc 0))))" by (rule arg_cong)
  then show ?thesis by (simp add: square_plus_def)
qed

text \<open>For \<open>c = 2\<close> and budget 100 the fourth iterate is outside the radius.\<close>

theorem C7_loop_bound_witness:
  "(0::int) \<le> 100 \<and> int 4 < 100 \<and>
   dot (orbit (2, 0) 4) (orbit (2, 0) 4) > b_radius * b_radius \<and>
   snd (snd (Loop (nat 100) (2, 0) (0, 0) 0)) \<and>
   int (steps (Loop (nat 100) (2, 0) (0, 0) 0)) < 100"
proof -
  have esc: "dot (orbit (2, 0) 4) (orbit (2, 0) 4) > b_radius * b_radius"
    by (simp add: orbit_4_at_2 dot_def b_radius_def)
  have "(0::int) \<le> 100" by simp
  from C7_loop_bound [OF this, of "(2, 0)"]
  have "int 4 < 100 \<and> dot (orbit (2, 0) 4) (orbit (2, 0) 4) > b_radius * b_radius \<longrightarrow>
          snd (snd (Loop (nat 100) (2, 0) (0, 0) 0)) \<and>
          int (steps (Loop (nat 100) (2, 0) (0, 0) 0)) < 100"
    by blast
  with esc show ?thesis by simp
qed

lemma Loop_early:
  "Loop k c z0 n = (z, n', True) \<Longrightarrow> n' < n + k \<and> dot z z > b_radius * b_radius"
proof (induction k arbitrary: z0 n)
  case 0
  then show ?case by simp
next
  case (Suc k)
  show ?case
  proof (cases "dot (square_plus z0 c) (square_plus z0 c) > b_radius * b_radius")
    case True
    with Suc.prems show ?thesis by (simp add: Let_def)
  next
    case False
    with Suc.prems have "Loop k c (square_plus z0 c) (n + 1) = (z, n', True)"
      by (simp add: Let_def)
    from Suc.IH [OF this] show ?thesis by simp
  qed
qed

lemma Loop_complete:
  "Loop k c z0 n = (z, n', False) \<Longrightarrow> n' = n + k"
proof (induction k arbitrary: z0 n)
  case 0
  then show ?case by simp
next
  case (Suc k)
  then have "Loop k c (square_plus z0 c) (n + 1) = (z, n', False)"
    by (simp add: Let_def split: if_splits)
  from Suc.IH [OF this] show ?case by simp
qed

lemma escaped_logs:
  assumes "dot z z > b_radius * b_radius"
  shows "0 < dot z z \<and> 0 < log 2 (dot z z)"
proof -
  have "1 < dot z z" using assms by (simp add: b_radius_def)
  then show ?thesis by simp
qed

lemma iterateMandelbrot_Loop:
  "Loop (nat m) c z0 0 = (z, n, early) \<Longrightarrow>
     iterateMandelbrot m z0 c =
       js_minus (Finite (real n)) (js_plus (js_log2 (js_log2 (Finite (dot z z)))) (Finite 4))"
  by (simp add: iterateMandelbrot_def Let_def)

lemma iterateMandelbrot_escaped:
  assumes "Loop (nat m) c z0 0 = (z, n, early)" "1 < dot z z"
  shows "iterateMandelbrot m z0 c = Finite (real n - (log 2 (log 2 (dot z z)) + 4))"
proof -
  have "0 < log 2 (dot z z)" using assms(2) by simp
  then show ?thesis
    using assms(2) by (simp add: iterateMandelbrot_Loop [OF assms(1)] js_minus_def)
qed

text \<open>
  C1. The claim is that an escaped point gets \<open>n - log2 (log2 |z|\<^sup>2) + 4\<close>. The code does
  not compute that: the source subtracts from \<open>n\<close> the sum \<open>log2 (log2 |z|\<^sup>2) + 4\<close>. For
  every escaped point (the loop left by its break) the arguments of both logarithms are
  positive and the value of \<^verbatim>\<open>iterateMandelbrot\<close> is \<open>n - log2 (log2 |z|\<^sup>2) - 4\<close>, which is
  not the claimed value.
\<close>

theorem C1_smoothed_count:
  assumes "Loop (nat m) c z0 0 = (z, n, True)"
  shows "0 < dot z z \<and> 0 < log 2 (dot z z) \<and>
         iterateMandelbrot m z0 c = Finite (real n - log 2 (log 2 (dot z z)) - 4.0) \<and>
         iterateMandelbrot m z0 c \<noteq> Finite (real n - log 2 (log 2 (dot z z)) + 4.0)"
proof -
  from Loop_early [OF assms] have far: "dot z z > b_radius * b_radius" by simp
  then have "1 < dot z z" by (simp add: b_radius_def)
  from iterateMandelbrot_escaped [OF assms this]
  have "iterateMandelbrot m z0 c = Finite (real n - log 2 (log 2 (dot z z)) - 4)"
    by simp
  with escaped_logs [OF far] show ?thesis by simp
qed

lemma dot_1446: "dot (1446, 0) (1446, 0) = 2090916"
  by (simp add: dot_def)

lemma loglog_bounds:
  "0 < log 2 (log 2 2090916)" "log 2 (log 2 2090916) < 5"
proof -
  have lo: "2 < log 2 2090916"
    by (subst less_log_iff) simp_all
  have hi: "log 2 2090916 < 32"
    by (subst log_less_iff) simp_all
  show "log 2 (log 2 2090916) < 5"
    using lo hi by (subst log_less_iff) simp_all
  show "0 < log 2 (log 2 2090916)"
    using lo by simp
qed

lemma iterateMandelbrot_100_at_2:
  "iterateMandelbrot 100 (0, 0) (2, 0) = Finite (3 - (log 2 (log 2 2090916) + 4))"
proof -
  have "1 < dot (1446, 0) (1446, 0)" by (simp add: dot_1446)
  from iterateMandelbrot_escaped [OF Loop_nat_100_at_2 this] show ?thesis
    by (simp add: dot_1446)
qed

text \<open>The point \<open>c = 2\<close> with budget 100 escapes with \<open>n = 3\<close> and \<open>z = 1446\<close>: the code's
  value is below 0, the claimed value is above 0.\<close>

theorem C1_smoothed_count_witness:
  "Loop (nat 100) (2, 0) (0, 0) 0 = ((1446, 0), 3, True) \<and>
   iterateMandelbrot 100 (0, 0) (2, 0) = Finite (3 - log 2 (log 2 2090916) - 4.0) \<and>
   iterateMandelbrot 100 (0, 0) (2, 0) \<noteq> Finite (3 - log 2 (log 2 2090916) + 4.0) \<and>
   3 - log 2 (log 2 2090916) - 4.0 < 0 \<and>
   0 < 3 - log 2 (log 2 2090916) + 4.0"
proof -
  define L where "L = log 2 (log 2 2090916)"
  have "0 < L" "L < 5" using loglog_bounds by (simp_all only: L_def)
  then have sign: "3 - L - 4.0 < 0 \<and> 0 < 3 - L + 4.0" by simp
  from C1_smoothed_count [OF Loop_nat_100_at_2]
  have "iterateMandelbrot 100 (0, 0) (2, 0) = Finite (3 - L - 4.0) \<and>
    iterateMandelbrot 100 (0, 0) (2, 0) \<noteq> Finite (3 - L + 4.0)"
    by (simp add: dot_1446 L_def)
  with sign Loop_nat_100_at_2 show ?thesis
    unfolding L_def by blast
qed

lemma Loop_3_at_2: "Loop 3 (2, 0) (0, 0) 0 = ((38, 0), 3, False)"
proof -
  have "Loop (Suc (Suc (Suc 0))) (2, 0) (0, 0) 0 = ((38, 0), 3, False)"
    by (simp add: square_plus_def dot_def b_radius_def Let_def)
  then show ?thesis by (simp add: numeral_3_eq_3)
qed

lemma Loop_2_at_2: "Loop 2 (2, 0) (0, 0) 0 = ((6, 0), 2, False)"
proof -
  have "Loop (Suc (Suc 0)) (2, 0) (0, 0) 0 = ((6, 0), 2, False)"
    by (simp add: square_plus_def dot_def b_radius_def Let_def)
  then show ?thesis by (simp add: numeral_2_eq_2)
qed

lemma orbit_at_2: "orbit (2, 0) 1 = (2, 0)" "orbit (2, 0) 2 = (6, 0)"
proof -
  show "orbit (2, 0) 1 = (2, 0)" by (simp add: square_plus_def)
  have "orbit (2, 0) (Suc (Suc 0)) = (6, 0)" by (simp add: square_plus_def)
  then show "orbit (2, 0) 2 = (6, 0)" by (simp add: numeral_2_eq_2)
qed

lemma mix3_Finite: "mix3 p q (Finite f) = fin3 (add3 p (mul3 (sub3 q p) f))"
  by (cases p, cases q) simp

lemma rgbColorFromIteration_number_Finite:
  "rgbColorFromIteration_number e (Finite v) = fin3 (rgbColorFromIteration e v)"
  by (simp add: rgbColorFromIteration_number_def rgbColorFromIteration_def Let_def
      mix3_Finite js_minus_def maxIterations_def)

text \<open>
  C9, as amended. For \<open>c = 2\<close> and budget 100 the first three iterations (\<open>z\<close> = 2, 6,
  38) stay inside the bailout radius and the fourth (\<open>z = 1446\<close>) leaves it, so the loop
  breaks in its fourth iteration with the count \<open>n = 3\<close>; the normalised value \<open>t\<close> is at
  most 0.16 and the colour is that of the first band.
\<close>

theorem C9_scenario:
  "Loop 3 (2, 0) (0, 0) 0 = ((38, 0), 3, False) \<and>
   Loop (nat 100) (2, 0) (0, 0) 0 = ((1446, 0), 3, True) \<and>
   dot (1446, 0) (1446, 0) > b_radius * b_radius \<and>
   steps (Loop (nat 100) (2, 0) (0, 0) 0) = 4 \<and>
   iterateMandelbrot 100 (0, 0) (2, 0) = Finite (3 - (log 2 (log 2 2090916) + 4)) \<and>
   (3 - (log 2 (log 2 2090916) + 4)) / maxIterations \<le> 0.16 \<and>
   rgbColorFromIteration e (3 - (log 2 (log 2 2090916) + 4)) =
     add3 (uColor0 e)
       (mul3 (sub3 (uColor1 e) (uColor0 e))
          ((3 - (log 2 (log 2 2090916) + 4)) / maxIterations / 0.16)) \<and>
   rgbColorFromIteration_number e (iterateMandelbrot 100 (0, 0) (2, 0)) =
     fin3 (rgbColorFromIteration e (3 - (log 2 (log 2 2090916) + 4)))"
proof -
  define L where "L = log 2 (log 2 2090916)"
  have "0 < L" using loglog_bounds(1) by (simp only: L_def)
  then have "(3 - (L + 4)) / 100 \<le> 0.16" by simp
  then have t: "(3 - (L + 4)) / maxIterations \<le> 0.16"
    by (simp only: maxIterations_def)
  then have "rgbColorFromIteration e (3 - (L + 4)) =
     add3 (uColor0 e)
       (mul3 (sub3 (uColor1 e) (uColor0 e)) ((3 - (L + 4)) / maxIterations / 0.16))"
    by (simp add: rgbColorFromIteration_def Let_def)
  moreover have "dot (1446, 0) (1446, 0) > b_radius * b_radius"
    by (simp add: dot_1446 b_radius_def)
  moreover have "steps (Loop (nat 100) (2, 0) (0, 0) 0) = 4"
    by (simp add: Loop_100_at_2)
  moreover have "iterateMandelbrot 100 (0, 0) (2, 0) = Finite (3 - (L + 4))"
    unfolding L_def by (rule iterateMandelbrot_100_at_2)
  moreover from this have "rgbColorFromIteration_number e (iterateMandelbrot 100 (0, 0) (2, 0)) =
     fin3 (rgbColorFromIteration e (3 - (L + 4)))"
    by (simp only: rgbColorFromIteration_number_Finite)
  ultimately show ?thesis
    using t Loop_3_at_2 Loop_nat_100_at_2 unfolding L_def by blast
qed

text \<open>
  C9 as stated fails: with \<open>c = 2\<close> the first two iterations give \<open>z = 2\<close> and \<open>z = 6\<close>,
  neither with \<open>|z|\<^sup>2 > 256\<^sup>2\<close>, and a loop of two iterations ends without a break.
\<close>

theorem C9_two_iterations_counterexample:
  "Loop 2 (2, 0) (0, 0) 0 = ((6, 0), 2, False) \<and>
   orbit (2, 0) 1 = (2, 0) \<and> orbit (2, 0) 2 = (6, 0) \<and>
   \<not> dot (2, 0) (2, 0) > b_radius * b_radius \<and>
   \<not> dot (6, 0) (6, 0) > b_radius * b_radius"
proof -
  have "\<not> dot (2, 0) (2, 0) > b_radius * b_radius"
    "\<not> dot (6, 0) (6, 0) > b_radius * b_radius"
    by (simp_all add: dot_def b_radius_def)
  then show ?thesis using Loop_2_at_2 orbit_at_2 by blast
qed

section \<open>Properties of the colour mapping\<close>

lemma band_tendsto:
  assumes "(h \<longlongrightarrow> v) F"
  shows "((\<lambda>t. add3 p (mul3 (sub3 q p) (h t))) \<longlongrightarrow> add3 p (mul3 (sub3 q p) v)) F"
proof -
  obtain p1 p2 p3 where p: "p = (p1, p2, p3)" by (cases p) auto
  obtain q1 q2 q3 where q: "q = (q1, q2, q3)" by (cases q) auto
  show ?thesis
    unfolding p q add3.simps sub3.simps mul3.simps
    by (intro tendsto_Pair tendsto_add tendsto_mult tendsto_const assms)
qed

lemma band_end: "add3 p (mul3 (sub3 q p) 1) = q"
  by (cases p, cases q) simp

lemma band_start: "add3 p (mul3 (sub3 q p) 0) = p"
  by (cases p, cases q) simp

lemma rgb_fraction:
  "rgbColorFromIteration e (maxIterations * t) =
     (if t \<le> 0.16 then
        add3 (uColor0 e) (mul3 (sub3 (uColor1 e) (uColor0 e)) (t / 0.16))
      else if t \<le> 0.42 then
        add3 (uColor1 e) (mul3 (sub3 (uColor2 e) (uColor1 e)) ((t - 0.16) / (0.42 - 0.16)))
      else if t \<le> 0.6425 then
        add3 (uColor2 e) (mul3 (sub3 (uColor3 e) (uColor2 e)) ((t - 0.42) / (0.6425 - 0.42)))
      else if t \<le> 0.8575 then
        add3 (uColor3 e) (mul3 (sub3 (uColor4 e) (uColor3 e)) ((t - 0.6425) / (0.8575 - 0.6425)))
      else uColor4 e)"
  by (simp add: rgbColorFromIteration_def maxIterations_def Let_def)

lemma affine_tendsto:
  assumes "d \<noteq> 0"
  shows "((\<lambda>t::real. (t - a) / d) \<longlongrightarrow> (t0 - a) / d) (at t0 within S)"
  using assms by (intro tendsto_intros)

lemma band_limit:
  assumes "d \<noteq> 0"
  shows "((\<lambda>t. add3 p (mul3 (sub3 q p) ((t - a) / d))) \<longlongrightarrow>
            add3 p (mul3 (sub3 q p) ((t0 - a) / d))) (at t0 within S)"
  by (rule band_tendsto) (rule affine_tendsto [OF assms])

lemma band_limit_start:
  assumes "d \<noteq> 0"
  shows "((\<lambda>t. add3 p (mul3 (sub3 q p) ((t - a) / d))) \<longlongrightarrow> p) (at a within S)"
  using band_limit [OF assms, of p q a a S] by (simp add: band_start)

lemma band_limit_end:
  assumes "t0 - a = d" "d \<noteq> 0"
  shows "((\<lambda>t. add3 p (mul3 (sub3 q p) ((t - a) / d))) \<longlongrightarrow> q) (at t0 within S)"
  using band_limit [OF assms(2), of p q a t0 S] assms by (simp add: band_end)

lemma isCont_glue:
  fixes f gl gr :: "real \<Rightarrow> vec3"
  assumes "lo < t0" "t0 < hi"
    and left: "\<And>t. lo < t \<Longrightarrow> t \<le> t0 \<Longrightarrow> f t = gl t"
    and right: "\<And>t. t0 < t \<Longrightarrow> t < hi \<Longrightarrow> f t = gr t"
    and liml: "(gl \<longlongrightarrow> l) (at_left t0)"
    and limr: "(gr \<longlongrightarrow> l) (at_right t0)"
    and val: "gl t0 = l"
  shows "isCont f t0"
proof -
  have at: "f t0 = l" using left [of t0] assms(1) val by simp
  have "eventually (\<lambda>t. f t = gl t) (at_left t0)"
    unfolding eventually_at_left [OF \<open>lo < t0\<close>] using assms(1) left by (intro exI [of _ lo]) simp
  then have l: "(f \<longlongrightarrow> l) (at_left t0)"
    using liml by (simp add: tendsto_cong)
  have "eventually (\<lambda>t. f t = gr t) (at_right t0)"
    unfolding eventually_at_right [OF \<open>t0 < hi\<close>] using assms(2) right by (intro exI [of _ hi]) simp
  then have r: "(f \<longlongrightarrow> l) (at_right t0)"
    using limr by (simp add: tendsto_cong)
  from l r have "(f \<longlongrightarrow> l) (at t0)"
    by (rule filterlim_split_at)
  then show ?thesis
    by (simp add: isCont_def at)
qed

lemma first_band_limit:
  "((\<lambda>t. add3 p (mul3 (sub3 q p) (t / 0.16))) \<longlongrightarrow> q) (at (0.16::real) within S)"
  using band_limit_end [of "0.16" 0 "0.16" p q S] by simp

lemma isCont_016:
  "isCont (\<lambda>t. rgbColorFromIteration e (maxIterations * t)) 0.16"
proof (rule isCont_glue [where lo = 0 and hi = "0.42" and l = "uColor1 e"
      and gl = "\<lambda>t. add3 (uColor0 e) (mul3 (sub3 (uColor1 e) (uColor0 e)) (t / 0.16))"
      and gr = "\<lambda>t. add3 (uColor1 e) (mul3 (sub3 (uColor2 e) (uColor1 e)) ((t - 0.16) / (0.42 - 0.16)))"])
  show "((\<lambda>t. add3 (uColor0 e) (mul3 (sub3 (uColor1 e) (uColor0 e)) (t / 0.16)))
          \<longlongrightarrow> uColor1 e) (at_left 0.16)"
    by (rule first_band_limit)
  show "((\<lambda>t. add3 (uColor1 e) (mul3 (sub3 (uColor2 e) (uColor1 e)) ((t - 0.16) / (0.42 - 0.16))))
          \<longlongrightarrow> uColor1 e) (at_right 0.16)"
    by (rule band_limit_start) simp
qed (simp_all add: rgb_fraction band_end)

lemma isCont_042:
  "isCont (\<lambda>t. rgbColorFromIteration e (maxIterations * t)) 0.42"
proof (rule isCont_glue [where lo = "0.16" and hi = "0.6425" and l = "uColor2 e"
      and gl = "\<lambda>t. add3 (uColor1 e) (mul3 (sub3 (uColor2 e) (uColor1 e)) ((t - 0.16) / (0.42 - 0.16)))"
      and gr = "\<lambda>t. add3 (uColor2 e) (mul3 (sub3 (uColor3 e) (uColor2 e)) ((t - 0.42) / (0.6425 - 0.42)))"])
  show "((\<lambda>t. add3 (uColor1 e) (mul3 (sub3 (uColor2 e) (uColor1 e)) ((t - 0.16) / (0.42 - 0.16))))
          \<longlongrightarrow> uColor2 e) (at_left 0.42)"
    by (rule band_limit_end) simp_all
  show "((\<lambda>t. add3 (uColor2 e) (mul3 (sub3 (uColor3 e) (uColor2 e)) ((t - 0.42) / (0.6425 - 0.42))))
          \<longlongrightarrow> uColor2 e) (at_right 0.42)"
    by (rule band_limit_start) simp
qed (simp_all add: rgb_fraction band_end)

lemma isCont_06425:
  "isCont (\<lambda>t. rgbColorFromIteration e (maxIterations * t)) 0.6425"
proof (rule isCont_glue [where lo = "0.42" and hi = "0.8575" and l = "uColor3 e"
      and gl = "\<lambda>t. add3 (uColor2 e) (mul3 (sub3 (uColor3 e) (uColor2 e)) ((t - 0.42) / (0.6425 - 0.42)))"
      and gr = "\<lambda>t. add3 (uColor3 e) (mul3 (sub3 (uColor4 e) (uColor3 e)) ((t - 0.6425) / (0.8575 - 0.6425)))"])
  show "((\<lambda>t. add3 (uColor2 e) (mul3 (sub3 (uColor3 e) (uColor2 e)) ((t - 0.42) / (0.6425 - 0.42))))
          \<longlongrightarrow> uColor3 e) (at_left 0.6425)"
    by (rule band_limit_end) simp_all
  show "((\<lambda>t. add3 (uColor3 e) (mul3 (sub3 (uColor4 e) (uColor3 e)) ((t - 0.6425) / (0.8575 - 0.6425))))
          \<longlongrightarrow> uColor3 e) (at_right 0.6425)"
    by (rule band_limit_start) simp
qed (simp_all add: rgb_fraction band_end)

lemma isCont_08575:
  "isCont (\<lambda>t. rgbColorFromIteration e (maxIterations * t)) 0.8575"
proof (rule isCont_glue [where lo = "0.6425" and hi = 1 and l = "uColor4 e"
      and gl = "\<lambda>t. add3 (uColor3 e) (mul3 (sub3 (uColor4 e) (uColor3 e)) ((t - 0.6425) / (0.8575 - 0.6425)))"
      and gr = "\<lambda>t. uColor4 e"])
  show "((\<lambda>t. add3 (uColor3 e) (mul3 (sub3 (uColor4 e) (uColor3 e)) ((t - 0.6425) / (0.8575 - 0.6425))))
          \<longlongrightarrow> uColor4 e) (at_left 0.8575)"
    by (rule band_limit_end) simp_all
  show "((\<lambda>t. uColor4 e) \<longlongrightarrow> uColor4 e) (at_right 0.8575)"
    by (rule tendsto_const)
qed (simp_all add: rgb_fraction band_end)

text \<open>
  C8. The colour mapping, as a function of the normalised value \<open>t\<close>, is made of the
  four bands and the last colour, each on its interval. At each of the four interior
  breakpoints 0.16, 0.42, 0.6425 and 0.8575, and for every palette, the band below
  evaluated at the breakpoint is the limit of the band above as \<open>t\<close> approaches the
  breakpoint from above, and the mapping itself is continuous there.
\<close>

theorem C8_band_continuity:
  "rgbColorFromIteration e (maxIterations * t) =
     (if t \<le> 0.16 then
        add3 (uColor0 e) (mul3 (sub3 (uColor1 e) (uColor0 e)) (t / 0.16))
      else if t \<le> 0.42 then
        add3 (uColor1 e) (mul3 (sub3 (uColor2 e) (uColor1 e)) ((t - 0.16) / (0.42 - 0.16)))
      else if t \<le> 0.6425 then
        add3 (uColor2 e) (mul3 (sub3 (uColor3 e) (uColor2 e)) ((t - 0.42) / (0.6425 - 0.42)))
      else if t \<le> 0.8575 then
        add3 (uColor3 e) (mul3 (sub3 (uColor4 e) (uColor3 e)) ((t - 0.6425) / (0.8575 - 0.6425)))
      else uColor4 e) \<and>
   ((\<lambda>t. add3 (uColor1 e) (mul3 (sub3 (uColor2 e) (uColor1 e)) ((t - 0.16) / (0.42 - 0.16))))
      \<longlongrightarrow> add3 (uColor0 e) (mul3 (sub3 (uColor1 e) (uColor0 e)) (0.16 / 0.16)))
     (at_right 0.16) \<and>
   ((\<lambda>t. add3 (uColor2 e) (mul3 (sub3 (uColor3 e) (uColor2 e)) ((t - 0.42) / (0.6425 - 0.42))))
      \<longlongrightarrow> add3 (uColor1 e)
                (mul3 (sub3 (uColor2 e) (uColor1 e)) ((0.42 - 0.16) / (0.42 - 0.16))))
     (at_right 0.42) \<and>
   ((\<lambda>t. add3 (uColor3 e) (mul3 (sub3 (uColor4 e) (uColor3 e)) ((t - 0.6425) / (0.8575 - 0.6425))))
      \<longlongrightarrow> add3 (uColor2 e)
                (mul3 (sub3 (uColor3 e) (uColor2 e)) ((0.6425 - 0.42) / (0.6425 - 0.42))))
     (at_right 0.6425) \<and>
   ((\<lambda>t. uColor4 e)
      \<longlongrightarrow> add3 (uColor3 e)
                (mul3 (sub3 (uColor4 e) (uColor3 e)) ((0.8575 - 0.6425) / (0.8575 - 0.6425))))
     (at_right 0.8575) \<and>
   isCont (\<lambda>t. rgbColorFromIteration e (maxIterations * t)) 0.16 \<and>
   isCont (\<lambda>t. rgbColorFromIteration e (maxIterations * t)) 0.42 \<and>
   isCont (\<lambda>t. rgbColorFromIteration e (maxIterations * t)) 0.6425 \<and>
   isCont (\<lambda>t. rgbColorFromIteration e (maxIterations * t)) 0.8575"
proof -
  have l1: "((\<lambda>t. add3 (uColor1 e) (mul3 (sub3 (uColor2 e) (uColor1 e)) ((t - 0.16) / (0.42 - 0.16))))
      \<longlongrightarrow> add3 (uColor0 e) (mul3 (sub3 (uColor1 e) (uColor0 e)) (0.16 / 0.16)))
     (at_right 0.16)"
    using band_limit_start [of "0.42 - 0.16" "uColor1 e" "uColor2 e" "0.16" "{0.16<..}"]
    by (simp add: band_end)
  have l2: "((\<lambda>t. add3 (uColor2 e) (mul3 (sub3 (uColor3 e) (uColor2 e)) ((t - 0.42) / (0.6425 - 0.42))))
      \<longlongrightarrow> add3 (uColor1 e)
                (mul3 (sub3 (uColor2 e) (uColor1 e)) ((0.42 - 0.16) / (0.42 - 0.16))))
     (at_right 0.42)"
    using band_limit_start [of "0.6425 - 0.42" "uColor2 e" "uColor3 e" "0.42" "{0.42<..}"]
    by (simp add: band_end)
  have l3: "((\<lambda>t. add3 (uColor3 e) (mul3 (sub3 (uColor4 e) (uColor3 e)) ((t - 0.6425) / (0.8575 - 0.6425))))
      \<longlongrightarrow> add3 (uColor2 e)
                (mul3 (sub3 (uColor3 e) (uColor2 e)) ((0.6425 - 0.42) / (0.6425 - 0.42))))
     (at_right 0.6425)"
    using band_limit_start [of "0.8575 - 0.6425" "uColor3 e" "uColor4 e" "0.6425" "{0.6425<..}"]
    by (simp add: band_end)
  have l4: "((\<lambda>t. uColor4 e)
      \<longlongrightarrow> add3 (uColor3 e)
                (mul3 (sub3 (uColor4 e) (uColor3 e)) ((0.8575 - 0.6425) / (0.8575 - 0.6425))))
     (at_right 0.8575)"
    by (simp add: band_end)
  from rgb_fraction [of e t] l1 l2 l3 l4 isCont_016 [of e] isCont_042 [of e]
    isCont_06425 [of e] isCont_08575 [of e]
  show ?thesis by (intro conjI)
qed

section \<open>Properties of the resize handler\<close>

lemma renderLoop_uAspect: "uAspect (renderLoop t e) = uAspect e"
  by (simp add: renderLoop_def Let_def)

lemma onResize_last:
  "entries \<noteq> [] \<Longrightarrow>
     uAspect (onResize entries e) =
       js_div (Finite (width (last entries))) (Finite (height (last entries)))"
proof (induction entries arbitrary: e)
  case Nil
  then show ?case by simp
next
  case (Cons entry entries)
  then show ?case by (cases entries) simp_all
qed

lemma js_times_not_finite_right: "\<not> is_finite y \<Longrightarrow> \<not> is_finite (js_times (Finite a) y)"
  by (cases y) simp_all

lemma js_times_not_finite_left: "\<not> is_finite x \<Longrightarrow> \<not> is_finite (js_times x (Finite c))"
  by (cases x) simp_all

lemma js_plus_not_finite_left: "\<not> is_finite x \<Longrightarrow> \<not> is_finite (js_plus x (Finite c))"
  by (cases x) simp_all

lemma scaled_not_finite:
  "\<not> is_finite (uAspect e) \<Longrightarrow> \<not> is_finite (fst (scaled e p))"
  by (simp add: scaled_def Let_def js_times_not_finite_right js_times_not_finite_left
      js_plus_not_finite_left)

text \<open>
  C10. A resize notification sets the aspect uniform to the quotient of the width and the
  height of its (last) entry, whatever they are. With height 0 and a positive width the
  uniform becomes plus infinity; the next frame leaves it so, and the x coordinate of
  every pixel's sample point is then not finite.
\<close>

theorem C10_resize_unguarded:
  "uAspect (onResize [r] e) = js_div (Finite (width r)) (Finite (height r)) \<and>
   (entries \<noteq> [] \<longrightarrow>
      uAspect (onResize entries e) =
        js_div (Finite (width (last entries))) (Finite (height (last entries)))) \<and>
   (0 < w \<longrightarrow>
      uAspect (onResize [\<lparr>width = w, height = 0\<rparr>] e) = PosInfinity \<and>
      uAspect (renderLoop t (onResize [\<lparr>width = w, height = 0\<rparr>] e)) = PosInfinity \<and>
      \<not> is_finite (fst (scaled (renderLoop t (onResize [\<lparr>width = w, height = 0\<rparr>] e)) p)))"
proof -
  have one: "uAspect (onResize [r] e) = js_div (Finite (width r)) (Finite (height r))"
    by simp
  have zero: "uAspect (renderLoop t (onResize [\<lparr>width = w, height = 0\<rparr>] e)) = PosInfinity"
    if "0 < w"
    using that by (simp add: renderLoop_uAspect)
  have "\<not> is_finite (fst (scaled (renderLoop t (onResize [\<lparr>width = w, height = 0\<rparr>] e)) p))"
    if "0 < w"
    by (rule scaled_not_finite) (simp only: zero [OF that] is_finite.simps not_False_eq_True)
  with one zero show ?thesis
    by (simp add: onResize_last renderLoop_uAspect del: onResize.simps)
qed

text \<open>A notification of width 800 and height 0, and one of width 800 and height 400.\<close>

theorem C10_resize_unguarded_witness:
  "[\<lparr>width = 800, height = 0\<rparr>] \<noteq> [] \<and> (0::real) < 800 \<and>
   uAspect (onResize [\<lparr>width = 800, height = 0\<rparr>] initial) = PosInfinity \<and>
   \<not> is_finite (fst (scaled (renderLoop 0 (onResize [\<lparr>width = 800, height = 0\<rparr>] initial)) (1, 1))) \<and>
   uAspect (onResize [\<lparr>width = 800, height = 400\<rparr>] initial) = Finite 2"
proof -
  have "(0::real) < 800" by simp
  with C10_resize_unguarded [of "\<lparr>width = 800, height = 400\<rparr>" initial "[]" 800 0 "(1, 1)"]
  show ?thesis by simp
qed

section \<open>Properties of the interior test\<close>

lemma Loop_2_result:
  "Loop_2 k i c z it = (z', it', early) \<Longrightarrow>
     (early \<longrightarrow> (\<exists>j. it' = real j \<and> i \<le> j \<and> j < i + k)) \<and>
     (\<not> early \<longrightarrow> (k = 0 \<and> it' = it) \<or> (0 < k \<and> it' = real (i + k - 1)))"
proof (induction k arbitrary: i z it)
  case 0
  then show ?case by simp
next
  case (Suc k)
  show ?case
  proof (cases "dot z z > 4")
    case True
    with Suc.prems have "it' = real i" "early" by simp_all
    then show ?thesis by auto
  next
    case False
    with Suc.prems have "Loop_2 k (Suc i) c (square_plus z c) (real i) = (z', it', early)"
      by simp
    from Suc.IH [OF this] show ?thesis by auto
  qed
qed

lemma Loop_inside:
  "Loop k c z0 n = (z, n', False) \<Longrightarrow>
     (k = 0 \<and> z = z0) \<or> \<not> dot z z > b_radius * b_radius"
proof (induction k arbitrary: z0 n)
  case 0
  then show ?case by simp
next
  case (Suc k)
  let ?z = "square_plus z0 c"
  from Suc.prems have inside: "\<not> dot ?z ?z > b_radius * b_radius"
    and rec: "Loop k c ?z (n + 1) = (z, n', False)"
    by (simp_all add: Let_def split: if_splits)
  from Suc.IH [OF rec] inside show ?case by auto
qed

lemma interior_value:
  assumes "dot z z \<le> b_radius * b_radius"
  shows "js_minus (Finite v) (js_plus (js_log2 (js_log2 (Finite (dot z z)))) (Finite 4)) = NaN \<or>
         js_minus (Finite v) (js_plus (js_log2 (js_log2 (Finite (dot z z)))) (Finite 4)) = PosInfinity \<or>
         (\<exists>w. js_minus (Finite v) (js_plus (js_log2 (js_log2 (Finite (dot z z)))) (Finite 4)) = Finite w
              \<and> v - 8 \<le> w)"
proof -
  let ?d = "dot z z"
  consider "?d \<le> 0" | "0 < ?d" "?d < 1" | "?d = 1" | "1 < ?d" by linarith
  then show ?thesis
  proof cases
    case 1
    then show ?thesis by (simp add: js_minus_def)
  next
    case 2
    then have "log 2 ?d < 0" by simp
    with 2 show ?thesis by (simp add: js_minus_def)
  next
    case 3
    then show ?thesis by (simp add: js_minus_def)
  next
    case 4
    then have pos: "0 < log 2 ?d" by simp
    have "?d \<le> 2 ^ 16" using assms by (simp add: b_radius_def)
    then have "log 2 ?d \<le> 16"
      using 4 by (subst log_le_iff) simp_all
    then have "log 2 (log 2 ?d) \<le> 4"
      using pos by (subst log_le_iff) simp_all
    then show ?thesis using 4 pos by (simp add: js_minus_def)
  qed
qed

lemma rgb_number_last:
  assumes "x = NaN \<or> x = PosInfinity \<or> (\<exists>w. x = Finite w \<and> 85.75 < w)"
  shows "rgbColorFromIteration_number e x = fin3 (uColor4 e)"
proof -
  consider "x = NaN" | "x = PosInfinity" | w where "x = Finite w" "85.75 < w"
    using assms by blast
  then show ?thesis
  proof cases
    case 1
    then show ?thesis by (simp add: rgbColorFromIteration_number_def Let_def)
  next
    case 2
    then show ?thesis by (simp add: rgbColorFromIteration_number_def Let_def maxIterations_def)
  next
    case 3
    then show ?thesis
      by (simp add: rgbColorFromIteration_number_Finite rgbColorFromIteration_def Let_def
          maxIterations_def)
  qed
qed

text \<open>
  C4. The claim is that a point whose loop ran to completion passes the test
  \<open>n \<ge> maxIterations - 1\<close> and gets the interior treatment: in FractalEngine.ts the
  iteration value 0 and so the first palette colour. The code of FractalEngine.ts does
  not do that. For every budget of at least 94 (every frame with a zoom of at most
  \<open>MAX_ZOOM\<close> has one of at least 100) and every point whose loop ran to completion, the
  test holds, but the value of \<^verbatim>\<open>iterateMandelbrot\<close> is not 0: it is NaN, plus infinity
  or above 85.75, and the pixel gets the last palette colour. The second file makes the
  test in the shader: a point whose loop ran to completion there is black.
\<close>

theorem C4_interior_test:
  assumes "94 \<le> m" and "Loop (nat m) c (0, 0) 0 = (z, n, False)"
  shows "real n \<ge> real_of_int m - 1 \<and>
         iterateMandelbrot m (0, 0) c \<noteq> Finite 0 \<and>
         rgbColorFromIteration_number e (iterateMandelbrot m (0, 0) c) = fin3 (uColor4 e) \<and>
         mandelBrot e m c = vec4_number (fin3 (uColor4 e)) (Finite 1) \<and>
         (\<forall>z2 it. Loop_2 (nat m) 0 c (0, 0) 0 = (z2, it, False) \<longrightarrow>
            mandelBrot_2 e m c = (0, 0, 0, 1))"
proof -
  let ?v = "iterateMandelbrot m (0, 0) c"
  from Loop_complete [OF assms(2)] have n: "n = nat m" by simp
  then have test: "real n \<ge> real_of_int m - 1" using assms(1) by simp
  have "dot z z \<le> b_radius * b_radius"
    using Loop_inside [OF assms(2)] by (auto simp: dot_def b_radius_def)
  from interior_value [OF this, of "real n"]
  have cases: "?v = NaN \<or> ?v = PosInfinity \<or> (\<exists>w. ?v = Finite w \<and> real n - 8 \<le> w)"
    by (simp only: iterateMandelbrot_Loop [OF assms(2)])
  have big: "85.75 < w" if "real n - 8 \<le> w" for w
    using that n assms(1) by simp
  from cases big have last: "?v = NaN \<or> ?v = PosInfinity \<or> (\<exists>w. ?v = Finite w \<and> 85.75 < w)"
    by blast
  then have not0: "?v \<noteq> Finite 0" by auto
  from last have col: "rgbColorFromIteration_number e ?v = fin3 (uColor4 e)"
    by (rule rgb_number_last)
  then have frag: "mandelBrot e m c = vec4_number (fin3 (uColor4 e)) (Finite 1)"
    by (simp add: mandelBrot_def Let_def)
  have black: "mandelBrot_2 e m c = (0, 0, 0, 1)"
    if r: "Loop_2 (nat m) 0 c (0, 0) 0 = (z2, it, False)" for z2 it
  proof -
    from Loop_2_result [OF r] assms(1) have "it = real (nat m - 1)" by simp
    then have "it \<ge> real_of_int m - 1" using assms(1) by simp
    then show ?thesis by (simp add: mandelBrot_2_def r)
  qed
  from test not0 col frag black show ?thesis by blast
qed

lemma Loop_at_0: "Loop k (0, 0) (0, 0) n = ((0, 0), n + k, False)"
  by (induction k arbitrary: n) (simp_all add: square_plus_def dot_def b_radius_def Let_def)

lemma Loop_2_at_0:
  "Loop_2 k i (0, 0) (0, 0) it = ((0, 0), if k = 0 then it else real (i + k - 1), False)"
  by (induction k arbitrary: i it) (simp_all add: square_plus_def dot_def)

lemma wide_fields:
  "uAspect wide = Finite 2" "uZoom wide = 2.5" "uMaxIterations wide = Finite 100"
  "uColor0 wide = COLOR_0" "uColor4 wide = COLOR_4"
  by (simp_all add: wide_def initial_def MAX_ZOOM_def)

lemma scaled_pixel_at_0: "scaled wide pixel_at_0 = (Finite 0, Finite 0)"
  by (simp add: scaled_def Let_def wide_fields pixel_at_0_def uStart_def)

text \<open>In the wide engine, with budget 100, the pixel at 0.\<close>

theorem C4_interior_test_witness:
  "scaled wide pixel_at_0 = (Finite 0, Finite 0) \<and>
   uMaxIterations wide = Finite 100 \<and>
   (94::int) \<le> 100 \<and>
   Loop (nat 100) (0, 0) (0, 0) 0 = ((0, 0), 100, False) \<and>
   real 100 \<ge> real_of_int 100 - 1 \<and>
   iterateMandelbrot 100 (0, 0) (0, 0) = NaN \<and>
   mandelBrot wide 100 (0, 0) = vec4_number (fin3 COLOR_4) (Finite 1) \<and>
   COLOR_4 \<noteq> COLOR_0 \<and>
   Loop_2 (nat 100) 0 (0, 0) (0, 0) 0 = ((0, 0), 99, False) \<and>
   mandelBrot_2 wide 100 (0, 0) = (0, 0, 0, 1)"
proof -
  have l: "Loop (nat 100) (0, 0) (0, 0) 0 = ((0, 0), 100, False)"
    by (simp add: Loop_at_0)
  have l2: "Loop_2 (nat 100) 0 (0, 0) (0, 0) 0 = ((0, 0), 99, False)"
    by (simp add: Loop_2_at_0)
  have v: "iterateMandelbrot 100 (0, 0) (0, 0) = NaN"
    by (simp add: iterateMandelbrot_Loop [OF l] dot_def js_minus_def)
  have c: "COLOR_4 \<noteq> COLOR_0"
    by (simp add: COLOR_4_def COLOR_0_def)
  have "(94::int) \<le> 100" by simp
  from C4_interior_test [OF this l, of wide] l2
  have "mandelBrot wide 100 (0, 0) = vec4_number (fin3 COLOR_4) (Finite 1) \<and>
    mandelBrot_2 wide 100 (0, 0) = (0, 0, 0, 1)"
    by (simp add: wide_fields)
  with scaled_pixel_at_0 wide_fields(3) l l2 v c show ?thesis by simp
qed

end
